theory Spec2Isabelle
  imports Main
begin

section \<open>Python values, errors and string operations\<close>

text \<open>
  The external registry snapshots of a resource are typed \<^verbatim>\<open>Mapping[str, Any]\<close>: their
  values are what the JSON files hold. \<open>pyval\<close> is that universe (floating-point numbers
  apart); a dictionary keeps its entries in an association list. A Python \<^verbatim>\<open>str\<close> is a
  \<open>string\<close>, one \<open>char\<close> standing for one code point.
\<close>

datatype pyval =
    PNone
  | PBool bool
  | PInt int
  | PStr string
  | PList "pyval list"
  | PDict "(string \<times> pyval) list"

text \<open>The exceptions the modelled methods can raise.\<close>

datatype error = TypeError | KeyError | AttributeError | ReError

text \<open>Truthiness of a value, as \<^verbatim>\<open>if x\<close>, \<^verbatim>\<open>x or y\<close> and \<^verbatim>\<open>not x\<close> read it.\<close>

fun py_truthy :: "pyval \<Rightarrow> bool" where
  "py_truthy PNone = False"
| "py_truthy (PBool b) = b"
| "py_truthy (PInt i) = (i \<noteq> 0)"
| "py_truthy (PStr s) = (s \<noteq> [])"
| "py_truthy (PList xs) = (xs \<noteq> [])"
| "py_truthy (PDict d) = (d \<noteq> [])"

definition py_or :: "pyval \<Rightarrow> pyval \<Rightarrow> pyval" where
  "py_or a b = (if py_truthy a then a else b)"

text \<open>\<^verbatim>\<open>d.get(key)\<close> on a dictionary: the default is \<^verbatim>\<open>None\<close>.\<close>

definition dict_get :: "(string \<times> pyval) list \<Rightarrow> string \<Rightarrow> pyval" where
  "dict_get d k = (case map_of d k of None \<Rightarrow> PNone | Some v \<Rightarrow> v)"

text \<open>
  \<^verbatim>\<open>x.get(key)\<close> on any value: only a dictionary has the method, every other value of
  \<open>pyval\<close> raises \<^verbatim>\<open>AttributeError\<close>.
\<close>

fun attr_get :: "pyval \<Rightarrow> string \<Rightarrow> error + pyval" where
  "attr_get (PDict d) k = Inr (dict_get d k)"
| "attr_get v k = Inl AttributeError"

text \<open>Whether a value is a mapping (a dictionary).\<close>

fun is_mapping :: "pyval \<Rightarrow> bool" where
  "is_mapping (PDict d) = True"
| "is_mapping v = False"

text \<open>\<^verbatim>\<open>s.startswith(p)\<close>, \<^verbatim>\<open>s.endswith(p)\<close>, \<^verbatim>\<open>s.rstrip(chars)\<close> and \<^verbatim>\<open>sub in s\<close>.\<close>

definition startswith :: "string \<Rightarrow> string \<Rightarrow> bool" where
  "startswith s p = (take (length p) s = p)"

definition endswith :: "string \<Rightarrow> string \<Rightarrow> bool" where
  "endswith s p = (length p \<le> length s \<and> drop (length s - length p) s = p)"

definition rstrip :: "string \<Rightarrow> string \<Rightarrow> string" where
  "rstrip s chars = rev (dropWhile (\<lambda>c. c \<in> set chars) (rev s))"

fun str_contains :: "string \<Rightarrow> string \<Rightarrow> bool" where
  "str_contains [] sub = (sub = [])"
| "str_contains (c # cs) sub = (startswith (c # cs) sub \<or> str_contains cs sub)"

text \<open>
  \<^verbatim>\<open>s.count(sub)\<close>: the number of non-overlapping occurrences, scanning from the left
  (and \<^verbatim>\<open>len(s) + 1\<close> for the empty \<^verbatim>\<open>sub\<close>).
\<close>

function count :: "string \<Rightarrow> string \<Rightarrow> nat" where
  "count s sub =
     (if sub = [] then length s + 1
      else if s = [] then 0
      else if startswith s sub then 1 + count (drop (length sub) s) sub
      else count (tl s) sub)"
  by pat_completeness auto
termination
  by (relation "measure (\<lambda>(s, sub). length s)") auto

declare count.simps [simp del]

section \<open>The models: Author, Provider, Resource\<close>

datatype Author = Author (author_name: string) (orcid: string) (email: "string option")

datatype Provider = Provider (code: string) (provider_name: string)
  (provider_description: string) (provider_homepage: string) (provider_uri_format: string)

record Resource =
  name :: "string option"
  description :: "string option"
  pattern :: "string option"
  uri_format :: "string option"
  providers :: "Provider list option"
  homepage :: "string option"
  contact :: "string option"
  example :: "string option"
  license :: "string option"
  version :: "string option"
  part_of :: "string option"
  provides :: "string option"
  download_owl :: "string option"
  download_obo :: "string option"
  banana :: "string option"
  deprecated :: "bool option"
  mappings :: "(string \<times> string) list option"
  synonyms :: "string list option"
  references :: "string list option"
  appears_in :: "string list option"
  namespace_in_lui :: "bool option"
  no_own_terms :: "bool option"
  comment :: "string option"
  contributor :: "Author option"
  reviewer :: "Author option"
  proprietary :: "bool option"
  has_canonical :: "string option"
  preferred_prefix :: "string option"
  miriam :: "(string \<times> pyval) list option"
  n2t :: "(string \<times> pyval) list option"
  prefixcommons :: "(string \<times> pyval) list option"
  wikidata :: "(string \<times> pyval) list option"
  go :: "(string \<times> pyval) list option"
  obofoundry :: "(string \<times> pyval) list option"
  bioportal :: "(string \<times> pyval) list option"
  ols :: "(string \<times> pyval) list option"
  ncbi :: "(string \<times> pyval) list option"
  uniprot :: "(string \<times> pyval) list option"
  biolink :: "(string \<times> pyval) list option"
  cellosaurus :: "(string \<times> pyval) list option"
  ontobee :: "(string \<times> pyval) list option"

text \<open>
  \<^verbatim>\<open>self.dict()\<close>: every field of the model under its name, an unset field as
  \<^verbatim>\<open>None\<close>, nested models as dictionaries.
\<close>

fun py_opt :: "('a \<Rightarrow> pyval) \<Rightarrow> 'a option \<Rightarrow> pyval" where
  "py_opt f None = PNone"
| "py_opt f (Some x) = f x"

definition py_strs :: "string list \<Rightarrow> pyval" where
  "py_strs xs = PList (map PStr xs)"

definition py_str_dict :: "(string \<times> string) list \<Rightarrow> pyval" where
  "py_str_dict m = PDict (map (\<lambda>(k, v). (k, PStr v)) m)"

definition Author_dict :: "Author \<Rightarrow> pyval" where
  "Author_dict a =
     PDict [(''name'', PStr (author_name a)), (''orcid'', PStr (orcid a)),
            (''email'', py_opt PStr (email a))]"

definition Provider_dict :: "Provider \<Rightarrow> pyval" where
  "Provider_dict p =
     PDict [(''code'', PStr (code p)), (''name'', PStr (provider_name p)),
            (''description'', PStr (provider_description p)),
            (''homepage'', PStr (provider_homepage p)),
            (''uri_format'', PStr (provider_uri_format p))]"

definition dict :: "Resource \<Rightarrow> (string \<times> pyval) list" where
  "dict self =
    [(''name'', py_opt PStr (name self)),
     (''description'', py_opt PStr (description self)),
     (''pattern'', py_opt PStr (pattern self)),
     (''uri_format'', py_opt PStr (uri_format self)),
     (''providers'', py_opt (\<lambda>ps. PList (map Provider_dict ps)) (providers self)),
     (''homepage'', py_opt PStr (homepage self)),
     (''contact'', py_opt PStr (contact self)),
     (''example'', py_opt PStr (example self)),
     (''license'', py_opt PStr (license self)),
     (''version'', py_opt PStr (version self)),
     (''part_of'', py_opt PStr (part_of self)),
     (''provides'', py_opt PStr (provides self)),
     (''download_owl'', py_opt PStr (download_owl self)),
     (''download_obo'', py_opt PStr (download_obo self)),
     (''banana'', py_opt PStr (banana self)),
     (''deprecated'', py_opt PBool (deprecated self)),
     (''mappings'', py_opt py_str_dict (mappings self)),
     (''synonyms'', py_opt py_strs (synonyms self)),
     (''references'', py_opt py_strs (references self)),
     (''appears_in'', py_opt py_strs (appears_in self)),
     (''namespace_in_lui'', py_opt PBool (namespace_in_lui self)),
     (''no_own_terms'', py_opt PBool (no_own_terms self)),
     (''comment'', py_opt PStr (comment self)),
     (''contributor'', py_opt Author_dict (contributor self)),
     (''reviewer'', py_opt Author_dict (reviewer self)),
     (''proprietary'', py_opt PBool (proprietary self)),
     (''has_canonical'', py_opt PStr (has_canonical self)),
     (''preferred_prefix'', py_opt PStr (preferred_prefix self)),
     (''miriam'', py_opt PDict (miriam self)),
     (''n2t'', py_opt PDict (n2t self)),
     (''prefixcommons'', py_opt PDict (prefixcommons self)),
     (''wikidata'', py_opt PDict (wikidata self)),
     (''go'', py_opt PDict (go self)),
     (''obofoundry'', py_opt PDict (obofoundry self)),
     (''bioportal'', py_opt PDict (bioportal self)),
     (''ols'', py_opt PDict (ols self)),
     (''ncbi'', py_opt PDict (ncbi self)),
     (''uniprot'', py_opt PDict (uniprot self)),
     (''biolink'', py_opt PDict (biolink self)),
     (''cellosaurus'', py_opt PDict (cellosaurus self)),
     (''ontobee'', py_opt PDict (ontobee self))]"

text \<open>
  The names of the locally curated fields of the model, the snapshot fields apart. The
  metaprefixes, which identify external registries, are not among them.
\<close>

definition local_fields :: "string list" where
  "local_fields =
    [''name'', ''description'', ''pattern'', ''uri_format'', ''providers'', ''homepage'',
     ''contact'', ''example'', ''license'', ''version'', ''part_of'', ''provides'',
     ''download_owl'', ''download_obo'', ''banana'', ''deprecated'', ''mappings'',
     ''synonyms'', ''references'', ''appears_in'', ''namespace_in_lui'', ''no_own_terms'',
     ''comment'', ''contributor'', ''reviewer'', ''proprietary'', ''has_canonical'',
     ''preferred_prefix'']"

text \<open>A resource with no field set, to build concrete resources from.\<close>

definition empty_resource :: Resource where
  "empty_resource =
    \<lparr>name = None, description = None, pattern = None, uri_format = None, providers = None,
     homepage = None, contact = None, example = None, license = None, version = None,
     part_of = None, provides = None, download_owl = None, download_obo = None,
     banana = None, deprecated = None, mappings = None, synonyms = None, references = None,
     appears_in = None, namespace_in_lui = None, no_own_terms = None, comment = None,
     contributor = None, reviewer = None, proprietary = None, has_canonical = None,
     preferred_prefix = None, miriam = None, n2t = None, prefixcommons = None,
     wikidata = None, go = None, obofoundry = None, bioportal = None, ols = None,
     ncbi = None, uniprot = None, biolink = None, cellosaurus = None, ontobee = None\<rparr>"

text \<open>
  The snapshot stored in a field, or the empty mapping when none is stored: what
  \<open>get_external\<close> returns for the name of a snapshot field (lemma
  \<open>get_external_snapshots\<close> below).
\<close>

definition snapshot :: "(string \<times> pyval) list option \<Rightarrow> (string \<times> pyval) list" where
  "snapshot x = (case x of None \<Rightarrow> [] | Some d \<Rightarrow> d)"

section \<open>Field resolution\<close>

text \<open>\<^verbatim>\<open>Resource.get_external\<close>: \<^verbatim>\<open>self.dict().get(metaprefix) or dict()\<close>.\<close>

definition get_external :: "Resource \<Rightarrow> string \<Rightarrow> pyval" where
  "get_external self metaprefix = py_or (dict_get (dict self) metaprefix) (PDict [])"

text \<open>
  \<^verbatim>\<open>Resource.get_prefix_key\<close>: the local value when it is not \<^verbatim>\<open>None\<close>, else the
  first value that is not \<^verbatim>\<open>None\<close> among the given snapshots. The loop is the recursion
  \<open>get_prefix_key_loop\<close> over the remaining metaprefixes.
\<close>

fun get_prefix_key_loop :: "Resource \<Rightarrow> string \<Rightarrow> string list \<Rightarrow> error + pyval" where
  "get_prefix_key_loop self key [] = Inr PNone"
| "get_prefix_key_loop self key (metaprefix # metaprefixes) =
     (let external = get_external self metaprefix in
      if external = PNone then Inl TypeError
      else (case attr_get external key of
              Inl e \<Rightarrow> Inl e
            | Inr rv \<Rightarrow> if rv \<noteq> PNone then Inr rv
                        else get_prefix_key_loop self key metaprefixes))"

definition get_prefix_key :: "Resource \<Rightarrow> string \<Rightarrow> string list \<Rightarrow> error + pyval" where
  "get_prefix_key self key metaprefixes =
     (let rv = dict_get (dict self) key in
      if rv \<noteq> PNone then Inr rv else get_prefix_key_loop self key metaprefixes)"

section \<open>What the modelled code takes from outside\<close>

text \<open>
  The methods below use two names of this repository whose definitions are not among the
  modelled sources, the constant \<^verbatim>\<open>bioregistry.constants.URI_FORMAT_KEY\<close> and
  \<^verbatim>\<open>bioregistry.utils.read_metaregistry\<close> (of which only the keys, in iteration order,
  are read), and four Python built-ins: \<^verbatim>\<open>str.upper\<close>, \<^verbatim>\<open>str.casefold\<close>, the conversion
  \<^verbatim>\<open>str(x)\<close> that an f-string applies to a value that is not a string, and
  \<^verbatim>\<open>re.compile\<close>. They are parameters of the model, collected in one record; a compiled
  pattern is represented by its \<^verbatim>\<open>fullmatch\<close> test, and \<open>None\<close> stands for a pattern
  that \<^verbatim>\<open>re.compile\<close> rejects.
\<close>

record environment =
  URI_FORMAT_KEY :: string
  read_metaregistry :: "string list"
  upper :: "string \<Rightarrow> string"
  casefold :: "string \<Rightarrow> string"
  str :: "pyval \<Rightarrow> string"
  re_compile :: "string \<Rightarrow> (string \<Rightarrow> bool) option"

text \<open>A value inside an f-string: a string stands for itself.\<close>

fun format :: "environment \<Rightarrow> pyval \<Rightarrow> string" where
  "format E (PStr s) = s"
| "format E v = str E v"

text \<open>\<^verbatim>\<open>len(x)\<close>, \<^verbatim>\<open>x.upper()\<close>, \<^verbatim>\<open>x[key]\<close>, \<^verbatim>\<open>x.count(sub)\<close> and \<^verbatim>\<open>x.endswith(p)\<close> on any value.\<close>

fun len :: "pyval \<Rightarrow> error + nat" where
  "len (PStr s) = Inr (length s)"
| "len (PList xs) = Inr (length xs)"
| "len (PDict d) = Inr (length (remdups (map fst d)))"
| "len v = Inl TypeError"

fun py_upper :: "environment \<Rightarrow> pyval \<Rightarrow> error + pyval" where
  "py_upper E (PStr s) = Inr (PStr (upper E s))"
| "py_upper E v = Inl AttributeError"

fun subscript :: "pyval \<Rightarrow> string \<Rightarrow> error + pyval" where
  "subscript (PDict d) k = (case map_of d k of None \<Rightarrow> Inl KeyError | Some v \<Rightarrow> Inr v)"
| "subscript v k = Inl TypeError"

fun py_count :: "pyval \<Rightarrow> string \<Rightarrow> error + nat" where
  "py_count (PStr s) sub = Inr (count s sub)"
| "py_count (PList xs) sub = Inr (count_list xs (PStr sub))"
| "py_count v sub = Inl AttributeError"

fun py_endswith :: "pyval \<Rightarrow> string \<Rightarrow> error + bool" where
  "py_endswith (PStr s) p = Inr (endswith s p)"
| "py_endswith v p = Inl AttributeError"

section \<open>Bananas and identifiers\<close>

text \<open>
  \<^verbatim>\<open>Resource.get_obo_preferred_prefix\<close>. Python evaluates the default
  \<^verbatim>\<open>self.obofoundry["prefix"].upper()\<close> before it calls \<^verbatim>\<open>get\<close>, so a snapshot
  without a string under \<^verbatim>\<open>prefix\<close> raises whether or not it has a \<^verbatim>\<open>preferredPrefix\<close>.
\<close>

definition get_obo_preferred_prefix :: "environment \<Rightarrow> Resource \<Rightarrow> error + pyval" where
  "get_obo_preferred_prefix E self =
     (case obofoundry self of
        None \<Rightarrow> Inr PNone
      | Some obo \<Rightarrow>
          (case subscript (PDict obo) ''prefix'' of
             Inl e \<Rightarrow> Inl e
           | Inr p \<Rightarrow>
               (case py_upper E p of
                  Inl e \<Rightarrow> Inl e
                | Inr dflt \<Rightarrow>
                    Inr (case map_of obo ''preferredPrefix'' of
                           None \<Rightarrow> dflt
                         | Some v \<Rightarrow> v))))"

text \<open>\<^verbatim>\<open>Resource.get_banana\<close>.\<close>

definition get_banana :: "environment \<Rightarrow> Resource \<Rightarrow> error + pyval" where
  "get_banana E self =
     (case banana self of
        Some b \<Rightarrow> Inr (PStr b)
      | None \<Rightarrow>
          if namespace_in_lui self = Some False then Inr PNone
          else (case get_obo_preferred_prefix E self of
                  Inl e \<Rightarrow> Inl e
                | Inr obo_preferred_prefix \<Rightarrow>
                    if obo_preferred_prefix \<noteq> PNone then Inr obo_preferred_prefix
                    else Inr PNone))"

text \<open>
  \<^verbatim>\<open>Resource.standardize_identifier\<close>; \<open>prefix\<close> is the optional argument. The slice
  \<^verbatim>\<open>identifier[k:]\<close> with \<open>k \<ge> 0\<close> is \<open>drop k\<close>.
\<close>

definition standardize_identifier ::
    "environment \<Rightarrow> Resource \<Rightarrow> string \<Rightarrow> string option \<Rightarrow> error + string" where
  "standardize_identifier E self identifier prefix =
     (case get_banana E self of
        Inl e \<Rightarrow> Inl e
      | Inr b \<Rightarrow>
          if py_truthy b \<and> startswith identifier (format E b @ '':'')
          then (case len b of
                  Inl e \<Rightarrow> Inl e
                | Inr n \<Rightarrow> Inr (drop (n + 1) identifier))
          else (case prefix of
                  None \<Rightarrow> Inr identifier
                | Some p \<Rightarrow>
                    if startswith (casefold E identifier) (casefold E p @ '':'')
                    then Inr (drop (length p + 1) identifier)
                    else Inr identifier))"

text \<open>\<^verbatim>\<open>Resource.miriam_standardize_identifier\<close>.\<close>

definition miriam_standardize_identifier ::
    "environment \<Rightarrow> Resource \<Rightarrow> string \<Rightarrow> error + string" where
  "miriam_standardize_identifier E self identifier =
     (case get_banana E self of
        Inl e \<Rightarrow> Inl e
      | Inr b \<Rightarrow>
          if py_truthy b
          then (let b' = format E b @ '':'' in
                if \<not> startswith identifier b' then Inr (b' @ identifier)
                else Inr identifier)
          else Inr identifier)"

section \<open>Patterns\<close>

text \<open>\<^verbatim>\<open>clean_pattern\<close>, on a string.\<close>

definition clean_pattern :: "string \<Rightarrow> string" where
  "clean_pattern rv =
     (let rv1 = rstrip rv ''?'';
          rv2 = (if \<not> startswith rv1 ''^'' then ''^'' @ rv1 else rv1)
      in if \<not> endswith rv2 ''$'' then rv2 @ ''$'' else rv2)"

text \<open>
  \<^verbatim>\<open>clean_pattern\<close> called on a value of a snapshot: \<^verbatim>\<open>rv.rstrip\<close> raises
  \<^verbatim>\<open>AttributeError\<close> on a value that is not a string.
\<close>

fun py_clean_pattern :: "pyval \<Rightarrow> error + string" where
  "py_clean_pattern (PStr rv) = Inr (clean_pattern rv)"
| "py_clean_pattern v = Inl AttributeError"

text \<open>\<^verbatim>\<open>Resource.get_pattern\<close>.\<close>

definition get_pattern :: "Resource \<Rightarrow> error + string option" where
  "get_pattern self =
     (case pattern self of
        Some p \<Rightarrow> Inr (Some p)
      | None \<Rightarrow>
          (case get_prefix_key self ''pattern'' [''miriam'', ''wikidata''] of
             Inl e \<Rightarrow> Inl e
           | Inr rv \<Rightarrow>
               if rv = PNone then Inr None
               else (case py_clean_pattern rv of
                       Inl e \<Rightarrow> Inl e
                     | Inr c \<Rightarrow> Inr (Some c))))"

text \<open>\<^verbatim>\<open>Resource.get_pattern_re\<close>: a pattern that does not compile raises \<^verbatim>\<open>re.error\<close>.\<close>

definition get_pattern_re :: "environment \<Rightarrow> Resource \<Rightarrow> error + (string \<Rightarrow> bool) option" where
  "get_pattern_re E self =
     (case get_pattern self of
        Inl e \<Rightarrow> Inl e
      | Inr None \<Rightarrow> Inr None
      | Inr (Some p) \<Rightarrow>
          (case re_compile E p of
             None \<Rightarrow> Inl ReError
           | Some compiled \<Rightarrow> Inr (Some compiled)))"

text \<open>
  \<^verbatim>\<open>Resource.is_canonical_identifier\<close>: \<open>Inr None\<close> is the answer \<^verbatim>\<open>None\<close> (unknown).
\<close>

definition is_canonical_identifier ::
    "environment \<Rightarrow> Resource \<Rightarrow> string \<Rightarrow> error + bool option" where
  "is_canonical_identifier E self identifier =
     (case get_pattern_re E self of
        Inl e \<Rightarrow> Inl e
      | Inr None \<Rightarrow> Inr None
      | Inr (Some compiled) \<Rightarrow> Inr (Some (compiled identifier)))"

section \<open>URI formats\<close>

text \<open>
  \<^verbatim>\<open>_allowed_uri_format\<close>: \<^verbatim>\<open>rv.startswith\<close> raises \<^verbatim>\<open>AttributeError\<close> on a value that is
  not a string.
\<close>

fun allowed_uri_format :: "pyval \<Rightarrow> error + bool" where
  "allowed_uri_format (PStr rv) =
     Inr (\<not> startswith rv ''https://identifiers.org''
          \<and> \<not> startswith rv ''http://identifiers.org''
          \<and> \<not> str_contains rv ''n2t.net''
          \<and> \<not> str_contains rv ''purl.bioontology.org'')"
| "allowed_uri_format v = Inl AttributeError"

text \<open>
  The formats that \<^verbatim>\<open>_allowed_uri_format\<close> turns down, as a predicate on values: a string
  that begins with an Identifiers.org URL or contains \<^verbatim>\<open>n2t.net\<close> or
  \<^verbatim>\<open>purl.bioontology.org\<close>.
\<close>

fun points_at_resolver :: "pyval \<Rightarrow> bool" where
  "points_at_resolver (PStr s) =
     (startswith s ''https://identifiers.org'' \<or> startswith s ''http://identifiers.org''
      \<or> str_contains s ''n2t.net'' \<or> str_contains s ''purl.bioontology.org'')"
| "points_at_resolver v = False"

text \<open>\<^verbatim>\<open>Resource.get_default_format\<close>; the loop over the seven snapshots is a recursion.\<close>

fun get_default_format_loop ::
    "Resource \<Rightarrow> (string \<times> string) list \<Rightarrow> error + pyval" where
  "get_default_format_loop self [] = Inr PNone"
| "get_default_format_loop self ((metaprefix, key) # rest) =
     (case attr_get (get_external self metaprefix) key of
        Inl e \<Rightarrow> Inl e
      | Inr rv \<Rightarrow>
          if rv \<noteq> PNone
          then (case allowed_uri_format rv of
                  Inl e \<Rightarrow> Inl e
                | Inr ok \<Rightarrow> if ok then Inr rv else get_default_format_loop self rest)
          else get_default_format_loop self rest)"

definition get_default_format :: "environment \<Rightarrow> Resource \<Rightarrow> error + pyval" where
  "get_default_format E self =
     (case uri_format self of
        Some u \<Rightarrow> Inr (PStr u)
      | None \<Rightarrow>
          get_default_format_loop self
            [(''miriam'', URI_FORMAT_KEY E),
             (''n2t'', URI_FORMAT_KEY E),
             (''go'', URI_FORMAT_KEY E),
             (''prefixcommons'', URI_FORMAT_KEY E),
             (''wikidata'', URI_FORMAT_KEY E),
             (''uniprot'', URI_FORMAT_KEY E),
             (''cellosaurus'', URI_FORMAT_KEY E)])"

text \<open>
  \<^verbatim>\<open>Resource.get_mappings\<close>: the dictionary \<^verbatim>\<open>rv\<close> is a map, the loop over the
  metaregistry a recursion that passes it on.
\<close>

fun get_mappings_loop ::
    "environment \<Rightarrow> Resource \<Rightarrow> (string \<rightharpoonup> pyval) \<Rightarrow> string list \<Rightarrow> error + (string \<rightharpoonup> pyval)" where
  "get_mappings_loop E self rv [] = Inr rv"
| "get_mappings_loop E self rv (metaprefix # rest) =
     (let external = get_external self metaprefix in
      if \<not> py_truthy external then get_mappings_loop E self rv rest
      else if metaprefix = ''wikidata'' then
        (case attr_get external ''prefix'' of
           Inl e \<Rightarrow> Inl e
         | Inr v \<Rightarrow>
             if v \<noteq> PNone then get_mappings_loop E self (rv(''wikidata'' \<mapsto> v)) rest
             else get_mappings_loop E self rv rest)
      else if metaprefix = ''obofoundry'' then
        (case external of
           PDict d \<Rightarrow>
             (case subscript external ''prefix'' of
                Inl e \<Rightarrow> Inl e
              | Inr p \<Rightarrow>
                  (case py_upper E p of
                     Inl e \<Rightarrow> Inl e
                   | Inr dflt \<Rightarrow>
                       get_mappings_loop E self
                         (rv(metaprefix \<mapsto>
                            (case map_of d ''preferredPrefix'' of
                               None \<Rightarrow> dflt
                             | Some v \<Rightarrow> v)))
                         rest))
         | _ \<Rightarrow> Inl AttributeError)
      else
        (case subscript external ''prefix'' of
           Inl e \<Rightarrow> Inl e
         | Inr v \<Rightarrow> get_mappings_loop E self (rv(metaprefix \<mapsto> v)) rest))"

definition get_mappings :: "environment \<Rightarrow> Resource \<Rightarrow> error + (string \<rightharpoonup> pyval)" where
  "get_mappings E self =
     get_mappings_loop E self
       (case mappings self of
          None \<Rightarrow> Map.empty
        | Some m \<Rightarrow> map_of (map (\<lambda>(k, v). (k, PStr v)) m))
       (read_metaregistry E)"

text \<open>\<^verbatim>\<open>Resource.get_mapped_prefix\<close>: \<^verbatim>\<open>(self.get_mappings() or {}).get(metaprefix)\<close>.\<close>

definition get_mapped_prefix :: "environment \<Rightarrow> Resource \<Rightarrow> string \<Rightarrow> error + pyval" where
  "get_mapped_prefix E self metaprefix =
     (case get_mappings E self of
        Inl e \<Rightarrow> Inl e
      | Inr rv \<Rightarrow> Inr (case rv metaprefix of None \<Rightarrow> PNone | Some v \<Rightarrow> v))"

text \<open>The formatters of the OBO Foundry, Prefix Commons, Identifiers.org, N2T and the OLS.\<close>

definition get_obofoundry_prefix :: "environment \<Rightarrow> Resource \<Rightarrow> error + pyval" where
  "get_obofoundry_prefix E self = get_mapped_prefix E self ''obofoundry''"

definition get_obofoundry_uri_prefix :: "environment \<Rightarrow> Resource \<Rightarrow> error + pyval" where
  "get_obofoundry_uri_prefix E self =
     (case get_obofoundry_prefix E self of
        Inl e \<Rightarrow> Inl e
      | Inr obo_prefix \<Rightarrow>
          if obo_prefix = PNone then Inr PNone
          else Inr (PStr (''http://purl.obolibrary.org/obo/'' @ format E obo_prefix @ ''_'')))"

definition get_obofoundry_uri_format :: "environment \<Rightarrow> Resource \<Rightarrow> error + pyval" where
  "get_obofoundry_uri_format E self =
     (case get_obofoundry_uri_prefix E self of
        Inl e \<Rightarrow> Inl e
      | Inr rv \<Rightarrow> if rv = PNone then Inr PNone else Inr (PStr (format E rv @ ''$1'')))"

definition get_prefixcommons_uri_format :: "environment \<Rightarrow> Resource \<Rightarrow> error + pyval" where
  "get_prefixcommons_uri_format E self =
     attr_get (get_external self ''prefixcommons'') (URI_FORMAT_KEY E)"

definition get_identifiers_org_prefix :: "environment \<Rightarrow> Resource \<Rightarrow> error + pyval" where
  "get_identifiers_org_prefix E self = get_mapped_prefix E self ''miriam''"

definition get_namespace_in_lui :: "Resource \<Rightarrow> error + pyval" where
  "get_namespace_in_lui self =
     (case namespace_in_lui self of
        Some b \<Rightarrow> Inr (PBool b)
      | None \<Rightarrow> get_prefix_key self ''namespaceEmbeddedInLui'' [''miriam''])"

definition get_miriam_uri_prefix :: "environment \<Rightarrow> Resource \<Rightarrow> error + pyval" where
  "get_miriam_uri_prefix E self =
     (case get_identifiers_org_prefix E self of
        Inl e \<Rightarrow> Inl e
      | Inr miriam_prefix \<Rightarrow>
          if miriam_prefix = PNone then Inr PNone
          else (case get_namespace_in_lui self of
                  Inl e \<Rightarrow> Inl e
                | Inr flag \<Rightarrow>
                    (case (if py_truthy flag then py_upper E miriam_prefix
                           else Inr miriam_prefix) of
                       Inl e \<Rightarrow> Inl e
                     | Inr miriam_prefix' \<Rightarrow>
                         Inr (PStr (''https://identifiers.org/'' @ format E miriam_prefix'
                                    @ '':'')))))"

definition get_miriam_uri_format :: "environment \<Rightarrow> Resource \<Rightarrow> error + pyval" where
  "get_miriam_uri_format E self =
     (case get_miriam_uri_prefix E self of
        Inl e \<Rightarrow> Inl e
      | Inr miriam_url_prefix \<Rightarrow>
          if miriam_url_prefix = PNone then Inr PNone
          else Inr (PStr (format E miriam_url_prefix @ ''$1'')))"

definition get_nt2_uri_prefix :: "environment \<Rightarrow> Resource \<Rightarrow> error + pyval" where
  "get_nt2_uri_prefix E self =
     (case get_mapped_prefix E self ''n2t'' of
        Inl e \<Rightarrow> Inl e
      | Inr n2t_prefix \<Rightarrow>
          if n2t_prefix = PNone then Inr PNone
          else Inr (PStr (''https://n2t.net/'' @ format E n2t_prefix @ '':'')))"

definition get_n2t_uri_format :: "environment \<Rightarrow> Resource \<Rightarrow> error + pyval" where
  "get_n2t_uri_format E self =
     (case get_nt2_uri_prefix E self of
        Inl e \<Rightarrow> Inl e
      | Inr n2t_uri_prefix \<Rightarrow>
          if n2t_uri_prefix = PNone then Inr PNone
          else Inr (PStr (format E n2t_uri_prefix @ ''$1'')))"

definition get_ols_prefix :: "environment \<Rightarrow> Resource \<Rightarrow> error + pyval" where
  "get_ols_prefix E self = get_mapped_prefix E self ''ols''"

definition get_ols_uri_prefix :: "environment \<Rightarrow> Resource \<Rightarrow> error + pyval" where
  "get_ols_uri_prefix E self =
     (case get_ols_prefix E self of
        Inl e \<Rightarrow> Inl e
      | Inr ols_prefix \<Rightarrow>
          if ols_prefix = PNone then Inr PNone
          else (case get_obofoundry_uri_prefix E self of
                  Inl e \<Rightarrow> Inl e
                | Inr obo_format \<Rightarrow>
                    if py_truthy obo_format
                    then Inr (PStr (''https://www.ebi.ac.uk/ols/ontologies/''
                                    @ format E ols_prefix @ ''/terms?iri=''
                                    @ format E obo_format))
                    else Inr PNone))"

definition get_ols_uri_format :: "environment \<Rightarrow> Resource \<Rightarrow> error + pyval" where
  "get_ols_uri_format E self =
     (case get_ols_uri_prefix E self of
        Inl e \<Rightarrow> Inl e
      | Inr ols_url_prefix \<Rightarrow>
          if ols_url_prefix = PNone then Inr PNone
          else Inr (PStr (format E ols_url_prefix @ ''$1'')))"

text \<open>The class tables \<^verbatim>\<open>URI_FORMATTERS\<close> and \<^verbatim>\<open>DEFAULT_URI_FORMATTER_PRIORITY\<close>.\<close>

definition URI_FORMATTERS ::
    "string \<rightharpoonup> (environment \<Rightarrow> Resource \<Rightarrow> error + pyval)" where
  "URI_FORMATTERS =
     map_of [(''default'', get_default_format),
             (''obofoundry'', get_obofoundry_uri_format),
             (''prefixcommons'', get_prefixcommons_uri_format),
             (''miriam'', get_miriam_uri_format),
             (''n2t'', get_n2t_uri_format),
             (''ols'', get_ols_uri_format)]"

definition DEFAULT_URI_FORMATTER_PRIORITY :: "string list" where
  "DEFAULT_URI_FORMATTER_PRIORITY =
     [''default'', ''obofoundry'', ''prefixcommons'', ''miriam'', ''n2t'', ''ols'']"

text \<open>
  \<^verbatim>\<open>Resource.get_uri_format\<close>: \<^verbatim>\<open>priority or self.DEFAULT_URI_FORMATTER_PRIORITY\<close> takes
  the default for \<^verbatim>\<open>None\<close> and for an empty sequence; a metaprefix without a formatter is
  skipped.
\<close>

fun get_uri_format_loop :: "environment \<Rightarrow> Resource \<Rightarrow> string list \<Rightarrow> error + pyval" where
  "get_uri_format_loop E self [] = Inr PNone"
| "get_uri_format_loop E self (metaprefix # rest) =
     (case URI_FORMATTERS metaprefix of
        None \<Rightarrow> get_uri_format_loop E self rest
      | Some formatter \<Rightarrow>
          (case formatter E self of
             Inl e \<Rightarrow> Inl e
           | Inr rv \<Rightarrow> if rv \<noteq> PNone then Inr rv else get_uri_format_loop E self rest))"

definition get_uri_format ::
    "environment \<Rightarrow> Resource \<Rightarrow> string list option \<Rightarrow> error + pyval" where
  "get_uri_format E self priority =
     get_uri_format_loop E self
       (case priority of
          None \<Rightarrow> DEFAULT_URI_FORMATTER_PRIORITY
        | Some ps \<Rightarrow> if ps = [] then DEFAULT_URI_FORMATTER_PRIORITY else ps)"

text \<open>
  \<^verbatim>\<open>Resource.get_uri_prefix\<close>. The slice \<^verbatim>\<open>fmt[: -len("$1")]\<close> drops the last two
  characters.
\<close>

definition get_uri_prefix ::
    "environment \<Rightarrow> Resource \<Rightarrow> string list option \<Rightarrow> error + pyval" where
  "get_uri_prefix E self priority =
     (case get_uri_format E self priority of
        Inl e \<Rightarrow> Inl e
      | Inr fmt \<Rightarrow>
          if fmt = PNone then Inr PNone
          else (case py_count fmt ''$1'' of
                  Inl e \<Rightarrow> Inl e
                | Inr n \<Rightarrow>
                    if 0 = n then Inr PNone
                    else if n \<noteq> 1 then Inr PNone
                    else (case py_endswith fmt ''$1'' of
                            Inl e \<Rightarrow> Inl e
                          | Inr ends \<Rightarrow>
                              if \<not> ends then Inr PNone
                              else (case fmt of
                                      PStr s \<Rightarrow> Inr (PStr (take (length s - length ''$1'') s))
                                    | _ \<Rightarrow> Inl TypeError))))"

section \<open>Concrete inputs\<close>

text \<open>
  An environment for evaluating the model: the key \<^verbatim>\<open>uri_format\<close>, a metaregistry of
  five registries, the case mappings on the ASCII letters, \<^verbatim>\<open>str\<close> on \<^verbatim>\<open>None\<close> and the
  Booleans (no other value that is not a string is formatted below), and of \<^verbatim>\<open>re\<close> the
  one pattern \<^verbatim>\<open>^CHEBI:[0-9]+$\<close>.
\<close>

definition ascii_upper :: "string \<Rightarrow> string" where
  "ascii_upper s =
     map (\<lambda>c. case map_of (zip ''abcdefghijklmnopqrstuvwxyz'' ''ABCDEFGHIJKLMNOPQRSTUVWXYZ'') c of
                 None \<Rightarrow> c
               | Some u \<Rightarrow> u) s"

definition ascii_lower :: "string \<Rightarrow> string" where
  "ascii_lower s =
     map (\<lambda>c. case map_of (zip ''ABCDEFGHIJKLMNOPQRSTUVWXYZ'' ''abcdefghijklmnopqrstuvwxyz'') c of
                 None \<Rightarrow> c
               | Some l \<Rightarrow> l) s"

definition is_digit :: "char \<Rightarrow> bool" where
  "is_digit c = (c \<in> set ''0123456789'')"

definition env0 :: environment where
  "env0 =
     \<lparr>URI_FORMAT_KEY = ''uri_format'',
      read_metaregistry = [''miriam'', ''n2t'', ''obofoundry'', ''ols'', ''wikidata''],
      upper = ascii_upper,
      casefold = ascii_lower,
      str = (\<lambda>v. case v of PBool True \<Rightarrow> ''True'' | PBool False \<Rightarrow> ''False'' | _ \<Rightarrow> ''None''),
      re_compile =
        (\<lambda>p. if p = ''^CHEBI:[0-9]+$''
              then Some (\<lambda>s. startswith s ''CHEBI:'' \<and> 6 < length s \<and> list_all is_digit (drop 6 s))
              else None)\<rparr>"

definition chebi :: Resource where
  "chebi = empty_resource
    \<lparr>name := Some ''ChEBI'',
     miriam := Some [(''prefix'', PStr ''chebi''),
                     (''name'', PStr ''ChEBI (MIRIAM)''),
                     (''pattern'', PStr ''^CHEBI:[0-9]+$''),
                     (''namespaceEmbeddedInLui'', PBool True),
                     (''uri_format'', PStr ''https://www.ebi.ac.uk/chebi/searchId.do?chebiId=CHEBI:$1'')],
     obofoundry := Some [(''prefix'', PStr ''chebi''),
                         (''name'', PStr ''Chemical Entities of Biological Interest''),
                         (''preferredPrefix'', PStr ''CHEBI'')]\<rparr>"

text \<open>
  Resources after the doctests of the source: an explicit banana (\<^verbatim>\<open>vario\<close>), a banana
  switched off although the resource is in the OBO Foundry (\<^verbatim>\<open>ncbitaxon\<close>), and an OBO
  Foundry snapshot without a preferred prefix (\<^verbatim>\<open>go\<close>).
\<close>

definition vario :: Resource where
  "vario = empty_resource\<lparr>banana := Some ''VariO'', namespace_in_lui := Some True\<rparr>"

definition ncbitaxon :: Resource where
  "ncbitaxon = empty_resource
     \<lparr>namespace_in_lui := Some False,
      obofoundry := Some [(''prefix'', PStr ''ncbitaxon''), (''preferredPrefix'', PStr ''NCBITaxon'')]\<rparr>"

definition gene_ontology :: Resource where
  "gene_ontology = empty_resource\<lparr>obofoundry := Some [(''prefix'', PStr ''go'')]\<rparr>"

text \<open>
  A resource whose only URI format is a BioPortal PURL in its MIRIAM snapshot, one whose
  only pattern is an unanchored Wikidata pattern with a trailing question mark, and
  resources with a curated pattern or format that is not in canonical form.
\<close>

definition hom :: Resource where
  "hom = empty_resource
     \<lparr>miriam := Some [(''prefix'', PStr ''hom''),
                      (''uri_format'', PStr ''http://purl.bioontology.org/ontology/HOM/$1'')]\<rparr>"

definition wikidata_only :: Resource where
  "wikidata_only = empty_resource
     \<lparr>wikidata := Some [(''prefix'', PStr ''P683''), (''pattern'', PStr ''P[0-9]+?'')]\<rparr>"

definition unanchored :: Resource where
  "unanchored = empty_resource\<lparr>pattern := Some ''[0-9]+''\<rparr>"

definition two_placeholders :: Resource where
  "two_placeholders = empty_resource\<lparr>uri_format := Some ''https://example.org/$1/$1''\<rparr>"

definition placeholder_inside :: Resource where
  "placeholder_inside = empty_resource\<lparr>uri_format := Some ''https://example.org/$1/about''\<rparr>"

text \<open>
  Two resources whose OBO Foundry snapshot has no \<^verbatim>\<open>prefix\<close> entry: one with nothing to
  derive a preferred prefix from, one with a \<^verbatim>\<open>preferredPrefix\<close> entry.
\<close>

definition no_obo_prefix :: Resource where
  "no_obo_prefix = empty_resource
     \<lparr>obofoundry := Some [(''name'', PStr ''Drosophila gross anatomy'')]\<rparr>"

definition preferred_prefix_only :: Resource where
  "preferred_prefix_only = empty_resource
     \<lparr>obofoundry := Some [(''preferredPrefix'', PStr ''FBbt'')]\<rparr>"

section \<open>Facts about the string operations\<close>

lemma startswith_single: "startswith s [c] = (s \<noteq> [] \<and> hd s = c)"
  by (cases s) (auto simp: startswith_def)

lemma endswith_single: "endswith s [c] = (s \<noteq> [] \<and> last s = c)"
proof (cases s rule: rev_cases)
  case Nil
  then show ?thesis by (simp add: endswith_def)
next
  case (snoc ys y)
  then show ?thesis by (auto simp: endswith_def)
qed

lemma rstrip_last: "s \<noteq> [] \<Longrightarrow> last s \<notin> set chars \<Longrightarrow> rstrip s chars = s"
  by (cases s rule: rev_cases) (auto simp: rstrip_def)

lemma startswith_append: "startswith (p @ s) p"
  by (simp add: startswith_def)

lemma endswith_take_drop: "endswith s p \<Longrightarrow> take (length s - length p) s @ p = s"
  by (metis append_take_drop_id endswith_def)

lemma clean_pattern_shape:
  "clean_pattern s \<noteq> [] \<and> hd (clean_pattern s) = CHR ''^'' \<and> last (clean_pattern s) = CHR ''$''"
  by (auto simp: clean_pattern_def Let_def startswith_single endswith_single)

section \<open>Facts about field resolution\<close>

lemma get_external_not_None: "get_external self m \<noteq> PNone"
  by (cases "dict_get (dict self) m") (auto simp: get_external_def py_or_def)

lemma py_opt_snapshot: "py_opt PDict x = PNone \<or> is_mapping (py_opt PDict x)"
  by (cases x) simp_all

lemma dict_get_nonlocal:
  assumes "m \<notin> set local_fields"
  shows "dict_get (dict self) m = PNone \<or> is_mapping (dict_get (dict self) m)"
proof -
  have "dict_get (dict self) m \<in>
          {PNone, py_opt PDict (miriam self), py_opt PDict (n2t self),
           py_opt PDict (prefixcommons self), py_opt PDict (wikidata self),
           py_opt PDict (go self), py_opt PDict (obofoundry self),
           py_opt PDict (bioportal self), py_opt PDict (ols self),
           py_opt PDict (ncbi self), py_opt PDict (uniprot self),
           py_opt PDict (biolink self), py_opt PDict (cellosaurus self),
           py_opt PDict (ontobee self)}" (is "_ \<in> ?S")
    using assms by (simp add: dict_get_def dict_def local_fields_def)
  moreover have "\<forall>v\<in>?S. v = PNone \<or> is_mapping v"
    by (simp add: py_opt_snapshot)
  ultimately show ?thesis
    by blast
qed

lemma get_external_mapping:
  assumes "m \<notin> set local_fields"
  shows "is_mapping (get_external self m)"
proof -
  from dict_get_nonlocal[OF assms, of self]
  show ?thesis
    by (cases "dict_get (dict self) m") (auto simp: get_external_def py_or_def)
qed

lemma get_external_empty:
  "dict_get (dict self) m = PNone \<Longrightarrow> get_external self m = PDict []"
  by (simp add: get_external_def py_or_def)

lemma get_prefix_key_loop_no_TypeError:
  "get_prefix_key_loop self key ms \<noteq> Inl TypeError"
  by (induction ms) (auto simp: Let_def get_external_not_None split: sum.splits elim: attr_get.elims)

lemma get_prefix_key_loop_returns:
  "\<forall>m\<in>set ms. m \<notin> set local_fields \<Longrightarrow> \<exists>rv. get_prefix_key_loop self key ms = Inr rv"
proof (induction ms)
  case Nil
  then show ?case by simp
next
  case (Cons m ms)
  then have "is_mapping (get_external self m)"
    by (simp add: get_external_mapping)
  then obtain d where d: "get_external self m = PDict d"
    by (cases "get_external self m") simp_all
  with Cons show ?case by (simp add: Let_def)
qed

text \<open>
  The name of a locally curated field is not a metaprefix, and no call in the source
  passes one to \<open>get_external\<close>; called with one, it returns that field's value.
\<close>

lemma get_external_on_field_name:
  "get_external (empty_resource\<lparr>name := Some ''ChEBI''\<rparr>) ''name'' = PStr ''ChEBI''
   \<and> get_prefix_key (empty_resource\<lparr>name := Some ''ChEBI''\<rparr>) ''description'' [''name'']
       = Inl AttributeError"
  by (simp add: get_prefix_key_def get_external_def py_or_def dict_get_def dict_def
      empty_resource_def)

text \<open>
  The default \<^verbatim>\<open>self.obofoundry["prefix"].upper()\<close> is evaluated before the lookup of
  \<^verbatim>\<open>preferredPrefix\<close>: without a \<^verbatim>\<open>prefix\<close> entry the annotated preferred prefix is not
  reached.
\<close>

lemma get_banana_preferred_prefix_only:
  "get_banana env0 preferred_prefix_only = Inl KeyError"
  by (simp add: get_banana_def get_obo_preferred_prefix_def preferred_prefix_only_def
      empty_resource_def)

section \<open>Facts about the snapshots, formats and patterns\<close>

lemma py_or_PDict: "py_or (py_opt PDict x) (PDict []) = PDict (snapshot x)"
  by (cases x) (auto simp: py_or_def snapshot_def)

lemma get_external_snapshots:
  "get_external self ''miriam'' = PDict (snapshot (miriam self))"
  "get_external self ''n2t'' = PDict (snapshot (n2t self))"
  "get_external self ''prefixcommons'' = PDict (snapshot (prefixcommons self))"
  "get_external self ''wikidata'' = PDict (snapshot (wikidata self))"
  "get_external self ''go'' = PDict (snapshot (go self))"
  "get_external self ''obofoundry'' = PDict (snapshot (obofoundry self))"
  "get_external self ''bioportal'' = PDict (snapshot (bioportal self))"
  "get_external self ''ols'' = PDict (snapshot (ols self))"
  "get_external self ''ncbi'' = PDict (snapshot (ncbi self))"
  "get_external self ''uniprot'' = PDict (snapshot (uniprot self))"
  "get_external self ''biolink'' = PDict (snapshot (biolink self))"
  "get_external self ''cellosaurus'' = PDict (snapshot (cellosaurus self))"
  "get_external self ''ontobee'' = PDict (snapshot (ontobee self))"
  by (simp_all add: get_external_def dict_get_def dict_def py_or_PDict)

text \<open>
  The loop of \<open>get_default_format\<close> over snapshots that are mappings is a search for the
  first value that is present and not turned down.
\<close>

lemma get_default_format_loop_find:
  assumes "list_all2 (\<lambda>m d. get_external self m = PDict d) ms ds"
  shows "get_default_format_loop self (map (\<lambda>m. (m, k)) ms) =
           (case find (\<lambda>v. v \<noteq> PNone \<and> \<not> points_at_resolver v) (map (\<lambda>d. dict_get d k) ds) of
              None \<Rightarrow> Inr PNone
            | Some (PStr s) \<Rightarrow> Inr (PStr s)
            | Some _ \<Rightarrow> Inl AttributeError)"
  using assms
proof (induction ms ds rule: list_all2_induct)
  case Nil
  then show ?case by simp
next
  case (Cons m ms d ds)
  then show ?case
    by (cases "dict_get d k") simp_all
qed

lemma py_clean_pattern_cleaned:
  "py_clean_pattern v = Inr p \<Longrightarrow> \<not> endswith p ''?'' \<and> startswith p ''^'' \<and> endswith p ''$''"
  using clean_pattern_shape
  by (cases v) (auto simp: startswith_single endswith_single)

lemma get_prefix_key_pattern:
  assumes "pattern self = None"
  shows "get_prefix_key self ''pattern'' [''miriam'', ''wikidata''] =
           Inr (case find (\<lambda>v. v \<noteq> PNone)
                       [dict_get (snapshot (miriam self)) ''pattern'',
                        dict_get (snapshot (wikidata self)) ''pattern''] of
                  None \<Rightarrow> PNone
                | Some v \<Rightarrow> v)"
proof -
  have "dict_get (dict self) ''pattern'' = PNone"
    using assms by (simp add: dict_get_def dict_def)
  then show ?thesis
    by (simp add: get_prefix_key_def get_external_snapshots Let_def)
qed

text \<open>The values of the model on the concrete resources.\<close>

lemma get_pattern_chebi: "get_pattern chebi = Inr (Some ''^CHEBI:[0-9]+$'')"
  by (simp add: get_pattern_def get_prefix_key_def get_external_snapshots snapshot_def
      chebi_def empty_resource_def dict_get_def dict_def clean_pattern_def rstrip_def
      startswith_def endswith_def)

lemma get_uri_format_chebi:
  "get_uri_format env0 chebi None =
     Inr (PStr ''https://www.ebi.ac.uk/chebi/searchId.do?chebiId=CHEBI:$1'')"
  by (simp add: get_uri_format_def DEFAULT_URI_FORMATTER_PRIORITY_def URI_FORMATTERS_def
      get_default_format_def get_external_snapshots snapshot_def chebi_def empty_resource_def
      env0_def dict_get_def startswith_def)

lemma get_uri_format_two_placeholders:
  "get_uri_format env0 two_placeholders None = Inr (PStr ''https://example.org/$1/$1'')"
  by (simp add: get_uri_format_def DEFAULT_URI_FORMATTER_PRIORITY_def URI_FORMATTERS_def
      get_default_format_def two_placeholders_def empty_resource_def)

lemma get_uri_format_placeholder_inside:
  "get_uri_format env0 placeholder_inside None = Inr (PStr ''https://example.org/$1/about'')"
  by (simp add: get_uri_format_def DEFAULT_URI_FORMATTER_PRIORITY_def URI_FORMATTERS_def
      get_default_format_def placeholder_inside_def empty_resource_def)

section \<open>The claims\<close>

text \<open>
  C9. \<open>clean_pattern\<close> is idempotent: cleaning a cleaned pattern gives the same string,
  for every string.
\<close>

theorem clean_pattern_idempotent: "clean_pattern (clean_pattern s) = clean_pattern s"
proof -
  let ?t = "clean_pattern s"
  have sh: "?t \<noteq> []" "hd ?t = CHR ''^''" "last ?t = CHR ''$''"
    using clean_pattern_shape[of s] by simp_all
  have "rstrip ?t ''?'' = ?t"
    using sh by (intro rstrip_last) simp_all
  then show ?thesis
    unfolding clean_pattern_def[of ?t] using sh
    by (simp add: Let_def startswith_single endswith_single)
qed

text \<open>
  C1. Local-override invariant: whenever the value of a field in the resource's own record
  is not null, \<open>get_prefix_key\<close> returns exactly that value, for every key, every list of
  metaprefixes and whatever the external snapshots hold.
\<close>

theorem get_prefix_key_local_override:
  "dict_get (dict self) key = v \<Longrightarrow> v \<noteq> PNone \<Longrightarrow>
   get_prefix_key self key metaprefixes = Inr v"
  by (simp add: get_prefix_key_def)

theorem get_prefix_key_local_override_witness:
  "dict_get (dict chebi) ''name'' = PStr ''ChEBI'' \<and> PStr ''ChEBI'' \<noteq> PNone \<and>
   get_prefix_key chebi ''name'' [''obofoundry'', ''miriam''] = Inr (PStr ''ChEBI'')"
proof -
  have h: "dict_get (dict chebi) ''name'' = PStr ''ChEBI''"
    by (simp add: dict_get_def dict_def chebi_def empty_resource_def)
  show ?thesis
    using h get_prefix_key_local_override[OF h, of "[''obofoundry'', ''miriam'']"] by simp
qed

text \<open>
  C10. A metaprefix is the identifier of an external registry: one of the thirteen
  registries the model keeps a snapshot field for, or a registry without such a field; it
  is not the name of a locally curated field. For every resource and every metaprefix,
  \<open>get_external\<close> returns a mapping, the empty one when nothing is stored under the
  metaprefix, and never null (for any string at all); so the \<^verbatim>\<open>TypeError\<close> of the
  fallback loop of \<open>get_prefix_key\<close> is never raised, and field resolution returns
  (raises nothing) for every key and every list of metaprefixes.
\<close>

theorem get_external_total:
  "get_external self m \<noteq> PNone
   \<and> (dict_get (dict self) m = PNone \<longrightarrow> get_external self m = PDict [])
   \<and> (m \<notin> set local_fields \<longrightarrow> is_mapping (get_external self m))
   \<and> get_prefix_key self key ms \<noteq> Inl TypeError
   \<and> ((\<forall>m\<in>set ms. m \<notin> set local_fields) \<longrightarrow> (\<exists>rv. get_prefix_key self key ms = Inr rv))"
  using get_prefix_key_loop_returns[of ms self key]
  by (simp add: get_external_not_None get_external_empty get_external_mapping
      get_prefix_key_def Let_def get_prefix_key_loop_no_TypeError)

theorem get_external_total_witness:
  "get_external chebi ''wikidata'' \<noteq> PNone
   \<and> dict_get (dict chebi) ''wikidata'' = PNone \<and> get_external chebi ''wikidata'' = PDict []
   \<and> ''wikidata'' \<notin> set local_fields \<and> is_mapping (get_external chebi ''wikidata'')
   \<and> get_prefix_key chebi ''pattern'' [''wikidata'', ''miriam''] \<noteq> Inl TypeError
   \<and> (\<exists>rv. get_prefix_key chebi ''pattern'' [''wikidata'', ''miriam''] = Inr rv)"
proof -
  have a: "dict_get (dict chebi) ''wikidata'' = PNone"
    by (simp add: dict_get_def dict_def chebi_def empty_resource_def)
  have b: "''wikidata'' \<notin> set local_fields" "''miriam'' \<notin> set local_fields"
    by (simp_all add: local_fields_def)
  show ?thesis
    using a b get_external_total[of chebi "''wikidata''" "''pattern''" "[''wikidata'', ''miriam'']"]
    by simp
qed

text \<open>
  C3, as the code has it. Resolution order of \<open>get_banana\<close>: the explicit banana when it
  is set; otherwise absent when \<open>namespace_in_lui\<close> is explicitly false, also for a
  resource with an OBO Foundry snapshot; otherwise, with an OBO Foundry snapshot that
  holds a string under \<^verbatim>\<open>prefix\<close>, the preferred prefix derived from the snapshot, which
  is its \<^verbatim>\<open>preferredPrefix\<close> entry when it has one and the upper-cased prefix when it has
  none; otherwise, without an OBO Foundry snapshot, absent.
\<close>

theorem get_banana_resolution_order:
  "(\<forall>b. banana self = Some b \<longrightarrow> get_banana E self = Inr (PStr b))
   \<and> (banana self = None \<and> namespace_in_lui self = Some False \<longrightarrow>
        get_banana E self = Inr PNone)
   \<and> (\<forall>obo p. banana self = None \<and> namespace_in_lui self \<noteq> Some False
          \<and> obofoundry self = Some obo \<and> map_of obo ''prefix'' = Some (PStr p) \<longrightarrow>
          get_banana E self =
            Inr (case map_of obo ''preferredPrefix'' of
                   None \<Rightarrow> PStr (upper E p)
                 | Some v \<Rightarrow> v))
   \<and> (banana self = None \<and> namespace_in_lui self \<noteq> Some False \<and> obofoundry self = None \<longrightarrow>
        get_banana E self = Inr PNone)"
proof (intro conjI allI impI)
  fix b
  assume "banana self = Some b"
  then show "get_banana E self = Inr (PStr b)"
    by (simp add: get_banana_def)
next
  assume "banana self = None \<and> namespace_in_lui self = Some False"
  then show "get_banana E self = Inr PNone"
    by (simp add: get_banana_def)
next
  fix obo p
  assume h: "banana self = None \<and> namespace_in_lui self \<noteq> Some False
             \<and> obofoundry self = Some obo \<and> map_of obo ''prefix'' = Some (PStr p)"
  then have "get_obo_preferred_prefix E self =
               Inr (case map_of obo ''preferredPrefix'' of
                      None \<Rightarrow> PStr (upper E p)
                    | Some v \<Rightarrow> v)"
    by (simp add: get_obo_preferred_prefix_def)
  with h show "get_banana E self =
                 Inr (case map_of obo ''preferredPrefix'' of
                        None \<Rightarrow> PStr (upper E p)
                      | Some v \<Rightarrow> v)"
    by (simp add: get_banana_def)
next
  assume "banana self = None \<and> namespace_in_lui self \<noteq> Some False \<and> obofoundry self = None"
  then show "get_banana E self = Inr PNone"
    by (simp add: get_banana_def get_obo_preferred_prefix_def)
qed

theorem get_banana_resolution_order_witness:
  "get_banana env0 vario = Inr (PStr ''VariO'')
   \<and> get_banana env0 ncbitaxon = Inr PNone
   \<and> get_banana env0 chebi = Inr (PStr ''CHEBI'')
   \<and> get_banana env0 gene_ontology = Inr (PStr ''GO'')
   \<and> get_banana env0 empty_resource = Inr PNone"
proof -
  have a: "get_banana env0 vario = Inr (PStr ''VariO'')"
    using get_banana_resolution_order[where self = vario and E = env0]
    by (simp add: vario_def empty_resource_def)
  have b: "get_banana env0 ncbitaxon = Inr PNone"
    using get_banana_resolution_order[where self = ncbitaxon and E = env0]
    by (simp add: ncbitaxon_def empty_resource_def)
  have c: "get_banana env0 chebi = Inr (PStr ''CHEBI'')"
    using get_banana_resolution_order[where self = chebi and E = env0]
    by (simp add: chebi_def empty_resource_def)
  have d: "get_banana env0 gene_ontology = Inr (PStr ''GO'')"
    using get_banana_resolution_order[where self = gene_ontology and E = env0]
    by (simp add: gene_ontology_def empty_resource_def env0_def ascii_upper_def)
  have e: "get_banana env0 empty_resource = Inr PNone"
    using get_banana_resolution_order[where self = empty_resource and E = env0]
    by (simp add: empty_resource_def)
  from a b c d e show ?thesis by simp
qed

text \<open>
  C3 as stated, for every resource with an OBO Foundry snapshot, does not hold: the
  snapshot is indexed at \<^verbatim>\<open>prefix\<close>, and one without that entry and without a preferred
  prefix, from which nothing can be derived, makes \<open>get_banana\<close> raise \<^verbatim>\<open>KeyError\<close>
  where the claim has it return.
\<close>

theorem get_banana_counterexample:
  "banana no_obo_prefix = None
   \<and> namespace_in_lui no_obo_prefix \<noteq> Some False
   \<and> obofoundry no_obo_prefix \<noteq> None
   \<and> get_banana env0 no_obo_prefix = Inl KeyError"
  by (simp add: get_banana_def get_obo_preferred_prefix_def no_obo_prefix_def
      empty_resource_def)

text \<open>
  C2, as the code has it. Where \<open>get_banana\<close> yields a string or nothing:
  \<open>standardize_identifier\<close> removes the first \<open>len(B) + 1\<close> characters when the banana
  \<open>B\<close> is a non-empty string and the identifier starts with \<open>B:\<close>; otherwise, when a prefix
  argument is given and the case-folded identifier starts with the case-folded prefix and
  a colon, it removes the first \<open>len(prefix) + 1\<close> characters; otherwise it returns the
  identifier unchanged. The result is one of these three, so at most one strip happens.
\<close>

theorem standardize_identifier_cases:
  assumes "get_banana E self = Inr (py_opt PStr B)"
  shows "standardize_identifier E self identifier prefix =
           Inr (if (\<exists>bn. B = Some bn \<and> bn \<noteq> [] \<and> startswith identifier (bn @ '':''))
                then drop (length (the B) + 1) identifier
                else if (\<exists>p. prefix = Some p
                             \<and> startswith (casefold E identifier) (casefold E p @ '':''))
                then drop (length (the prefix) + 1) identifier
                else identifier)"
  using assms
  by (cases B; cases prefix) (auto simp: standardize_identifier_def)

theorem standardize_identifier_cases_witness:
  "get_banana env0 chebi = Inr (PStr ''CHEBI'')
   \<and> standardize_identifier env0 chebi ''CHEBI:CHEBI:1234'' None = Inr ''CHEBI:1234''
   \<and> standardize_identifier env0 chebi ''chebi:1234'' (Some ''ChEBI'') = Inr ''1234''
   \<and> standardize_identifier env0 chebi ''1234'' (Some ''ChEBI'') = Inr ''1234''"
proof -
  have b: "get_banana env0 chebi = Inr (py_opt PStr (Some ''CHEBI''))"
    by (simp add: get_banana_def get_obo_preferred_prefix_def chebi_def empty_resource_def)
  have cf: "casefold env0 = ascii_lower"
    by (simp add: env0_def)
  show ?thesis
    using b
      standardize_identifier_cases[OF b, of "''CHEBI:CHEBI:1234''" None]
      standardize_identifier_cases[OF b, of "''chebi:1234''" "Some ''ChEBI''"]
      standardize_identifier_cases[OF b, of "''1234''" "Some ''ChEBI''"]
    by (simp add: cf startswith_def ascii_lower_def)
qed

text \<open>
  C2 as stated does not hold for a resource whose banana is the empty string: the
  identifier \<^verbatim>\<open>:0376\<close> starts with the banana and a colon, and is returned whole, where
  the claim has the first \<open>len(B) + 1 = 1\<close> character removed.
\<close>

theorem standardize_identifier_counterexample:
  "get_banana env0 (empty_resource\<lparr>banana := Some []\<rparr>) = Inr (PStr [])
   \<and> startswith '':0376'' ([] @ '':'')
   \<and> standardize_identifier env0 (empty_resource\<lparr>banana := Some []\<rparr>) '':0376'' None
       = Inr '':0376''
   \<and> drop (length ([] :: string) + 1) '':0376'' = ''0376''"
  by (simp add: standardize_identifier_def get_banana_def empty_resource_def startswith_def)

text \<open>
  C4. Banana round trip: for a resource with banana \<open>B\<close> and an identifier that does not
  start with \<open>B:\<close>, \<open>miriam_standardize_identifier\<close> returns, and
  \<open>standardize_identifier\<close> on its result gives the identifier back.
\<close>

theorem banana_round_trip:
  assumes "get_banana E self = Inr (PStr B)"
    and "\<not> startswith identifier (B @ '':'')"
  shows "\<exists>mid. miriam_standardize_identifier E self identifier = Inr mid
               \<and> standardize_identifier E self mid None = Inr identifier"
proof (cases "B = []")
  case True
  with assms show ?thesis
    by (simp add: miriam_standardize_identifier_def standardize_identifier_def)
next
  case False
  have sw: "startswith ((B @ '':'') @ identifier) (B @ '':'')"
    by (rule startswith_append)
  have "miriam_standardize_identifier E self identifier = Inr ((B @ '':'') @ identifier)"
    using assms False by (simp add: miriam_standardize_identifier_def Let_def)
  moreover have "standardize_identifier E self ((B @ '':'') @ identifier) None = Inr identifier"
    using assms(1) False sw by (simp add: standardize_identifier_def)
  ultimately show ?thesis by blast
qed

theorem banana_round_trip_witness:
  "get_banana env0 vario = Inr (PStr ''VariO'')
   \<and> \<not> startswith ''0376'' (''VariO'' @ '':'')
   \<and> miriam_standardize_identifier env0 vario ''0376'' = Inr ''VariO:0376''
   \<and> standardize_identifier env0 vario ''VariO:0376'' None = Inr ''0376''"
proof -
  have b: "get_banana env0 vario = Inr (PStr ''VariO'')"
    by (simp add: get_banana_def vario_def empty_resource_def)
  have n: "\<not> startswith ''0376'' (''VariO'' @ '':'')"
    by (simp add: startswith_def)
  have m: "miriam_standardize_identifier env0 vario ''0376'' = Inr ''VariO:0376''"
    using b n by (simp add: miriam_standardize_identifier_def Let_def)
  show ?thesis
    using b n m banana_round_trip[OF b n] by simp
qed

text \<open>
  C5, as the code has it. \<open>get_default_format\<close> returns the resource's own \<open>uri_format\<close>
  when it is set; otherwise it goes through the snapshots in the order miriam, n2t, go,
  prefixcommons, wikidata, uniprot, cellosaurus and takes the first format that is present
  and is not a string pointing at another resolver, that is, beginning with an
  Identifiers.org URL or containing \<^verbatim>\<open>n2t.net\<close> or \<^verbatim>\<open>purl.bioontology.org\<close>: it returns
  that format when it is a string and raises \<^verbatim>\<open>AttributeError\<close> when it is not; with no
  such format it returns absent.
\<close>

theorem get_default_format_strategy:
  "get_default_format E self =
     (case uri_format self of
        Some u \<Rightarrow> Inr (PStr u)
      | None \<Rightarrow>
          (case find (\<lambda>v. v \<noteq> PNone \<and> \<not> points_at_resolver v)
                  (map (\<lambda>d. dict_get d (URI_FORMAT_KEY E))
                     [snapshot (miriam self), snapshot (n2t self), snapshot (go self),
                      snapshot (prefixcommons self), snapshot (wikidata self),
                      snapshot (uniprot self), snapshot (cellosaurus self)]) of
             None \<Rightarrow> Inr PNone
           | Some (PStr s) \<Rightarrow> Inr (PStr s)
           | Some _ \<Rightarrow> Inl AttributeError))"
proof (cases "uri_format self")
  case (Some u)
  then show ?thesis by (simp add: get_default_format_def)
next
  case None
  have "list_all2 (\<lambda>m d. get_external self m = PDict d)
          [''miriam'', ''n2t'', ''go'', ''prefixcommons'', ''wikidata'', ''uniprot'', ''cellosaurus'']
          [snapshot (miriam self), snapshot (n2t self), snapshot (go self),
           snapshot (prefixcommons self), snapshot (wikidata self),
           snapshot (uniprot self), snapshot (cellosaurus self)]"
    by (simp add: get_external_snapshots)
  from get_default_format_loop_find[OF this, of "URI_FORMAT_KEY E"] None
  show ?thesis
    by (simp add: get_default_format_def)
qed

theorem get_default_format_strategy_witness:
  "get_default_format env0 chebi =
     Inr (PStr ''https://www.ebi.ac.uk/chebi/searchId.do?chebiId=CHEBI:$1'')
   \<and> get_default_format env0 two_placeholders = Inr (PStr ''https://example.org/$1/$1'')
   \<and> get_default_format env0 empty_resource = Inr PNone"
proof -
  have a: "get_default_format env0 chebi =
             Inr (PStr ''https://www.ebi.ac.uk/chebi/searchId.do?chebiId=CHEBI:$1'')"
    using get_default_format_strategy[of env0 chebi]
    by (simp add: snapshot_def chebi_def empty_resource_def env0_def dict_get_def startswith_def)
  have b: "get_default_format env0 two_placeholders = Inr (PStr ''https://example.org/$1/$1'')"
    using get_default_format_strategy[of env0 two_placeholders]
    by (simp add: two_placeholders_def empty_resource_def)
  have c: "get_default_format env0 empty_resource = Inr PNone"
    using get_default_format_strategy[of env0 empty_resource]
    by (simp add: snapshot_def empty_resource_def dict_get_def)
  from a b c show ?thesis by simp
qed

text \<open>
  C5 as stated, with only the Identifiers.org and N2T formats excluded, does not hold: a
  BioPortal PURL in the MIRIAM snapshot is neither, and is not returned.
\<close>

theorem get_default_format_counterexample:
  "uri_format hom = None
   \<and> dict_get (snapshot (miriam hom)) (URI_FORMAT_KEY env0)
       = PStr ''http://purl.bioontology.org/ontology/HOM/$1''
   \<and> \<not> startswith ''http://purl.bioontology.org/ontology/HOM/$1'' ''https://identifiers.org''
   \<and> \<not> startswith ''http://purl.bioontology.org/ontology/HOM/$1'' ''http://identifiers.org''
   \<and> \<not> str_contains ''http://purl.bioontology.org/ontology/HOM/$1'' ''n2t.net''
   \<and> get_default_format env0 hom = Inr PNone"
  by (simp add: get_default_format_def get_external_snapshots snapshot_def hom_def
      empty_resource_def env0_def dict_get_def startswith_def)

text \<open>
  C6. \<open>get_uri_prefix\<close> on a resolved format string: it returns (raises nothing), absent
  unless the string has exactly one \<^verbatim>\<open>$1\<close> and ends with it, and then the string without
  its last two characters, which with the placeholder appended is the format again.
\<close>

theorem get_uri_prefix_well_formed:
  assumes "get_uri_format E self priority = Inr (PStr fmt)"
  shows "get_uri_prefix E self priority =
           Inr (if count fmt ''$1'' = 1 \<and> endswith fmt ''$1''
                then PStr (take (length fmt - 2) fmt)
                else PNone)
         \<and> (count fmt ''$1'' = 1 \<and> endswith fmt ''$1'' \<longrightarrow>
              take (length fmt - 2) fmt @ ''$1'' = fmt)"
proof -
  have e: "endswith fmt ''$1'' \<Longrightarrow> take (length fmt - 2) fmt @ ''$1'' = fmt"
    using endswith_take_drop[of fmt "''$1''"] by (simp add: numeral_2_eq_2)
  show ?thesis
    using assms e by (auto simp: get_uri_prefix_def numeral_2_eq_2)
qed

theorem get_uri_prefix_well_formed_witness:
  "get_uri_prefix env0 chebi None =
     Inr (PStr ''https://www.ebi.ac.uk/chebi/searchId.do?chebiId=CHEBI:'')
   \<and> count ''https://example.org/$1/$1'' ''$1'' = 2
   \<and> get_uri_prefix env0 two_placeholders None = Inr PNone
   \<and> count ''https://example.org/$1/about'' ''$1'' = 1
   \<and> \<not> endswith ''https://example.org/$1/about'' ''$1''
   \<and> get_uri_prefix env0 placeholder_inside None = Inr PNone"
proof -
  have a: "get_uri_prefix env0 chebi None =
             Inr (PStr ''https://www.ebi.ac.uk/chebi/searchId.do?chebiId=CHEBI:'')"
    using get_uri_prefix_well_formed[OF get_uri_format_chebi]
    by (simp add: count.simps startswith_def endswith_def)
  have b: "count ''https://example.org/$1/$1'' ''$1'' = 2"
    by (simp add: count.simps startswith_def)
  have c: "get_uri_prefix env0 two_placeholders None = Inr PNone"
    using get_uri_prefix_well_formed[OF get_uri_format_two_placeholders] b by simp
  have d: "count ''https://example.org/$1/about'' ''$1'' = 1"
    by (simp add: count.simps startswith_def)
  have e: "\<not> endswith ''https://example.org/$1/about'' ''$1''"
    by (simp add: endswith_def)
  have f: "get_uri_prefix env0 placeholder_inside None = Inr PNone"
    using get_uri_prefix_well_formed[OF get_uri_format_placeholder_inside] e by simp
  from a b c d e f show ?thesis by simp
qed

text \<open>
  C7, as the code has it. \<open>get_pattern\<close> returns the locally curated pattern as it is
  when one is set; otherwise the first pattern that is present in the MIRIAM and then the
  Wikidata snapshot, cleaned when it is a string (\<^verbatim>\<open>AttributeError\<close> when it is not);
  otherwise absent. Every pattern it returns for a resource without a curated pattern
  has no trailing question mark, starts with \<^verbatim>\<open>^\<close> and ends with \<^verbatim>\<open>$\<close>.
\<close>

theorem get_pattern_chain:
  "get_pattern self =
     (case pattern self of
        Some p \<Rightarrow> Inr (Some p)
      | None \<Rightarrow>
          (case find (\<lambda>v. v \<noteq> PNone)
                  [dict_get (snapshot (miriam self)) ''pattern'',
                   dict_get (snapshot (wikidata self)) ''pattern''] of
             None \<Rightarrow> Inr None
           | Some (PStr s) \<Rightarrow> Inr (Some (clean_pattern s))
           | Some _ \<Rightarrow> Inl AttributeError))
   \<and> (\<forall>p. pattern self = None \<longrightarrow> get_pattern self = Inr (Some p) \<longrightarrow>
          \<not> endswith p ''?'' \<and> startswith p ''^'' \<and> endswith p ''$'')"
proof (rule conjI)
  show "get_pattern self =
     (case pattern self of
        Some p \<Rightarrow> Inr (Some p)
      | None \<Rightarrow>
          (case find (\<lambda>v. v \<noteq> PNone)
                  [dict_get (snapshot (miriam self)) ''pattern'',
                   dict_get (snapshot (wikidata self)) ''pattern''] of
             None \<Rightarrow> Inr None
           | Some (PStr s) \<Rightarrow> Inr (Some (clean_pattern s))
           | Some _ \<Rightarrow> Inl AttributeError))"
  proof (cases "pattern self")
    case (Some p)
    then show ?thesis by (simp add: get_pattern_def)
  next
    case None
    show ?thesis
      unfolding get_pattern_def get_prefix_key_pattern[OF None]
      using None
      by (cases "dict_get (snapshot (miriam self)) ''pattern''";
          cases "dict_get (snapshot (wikidata self)) ''pattern''") simp_all
  qed
next
  show "\<forall>p. pattern self = None \<longrightarrow> get_pattern self = Inr (Some p) \<longrightarrow>
          \<not> endswith p ''?'' \<and> startswith p ''^'' \<and> endswith p ''$''"
  proof (intro allI impI)
    fix p
    assume n: "pattern self = None" and g: "get_pattern self = Inr (Some p)"
    from g n obtain rv where "py_clean_pattern rv = Inr p"
      by (auto simp: get_pattern_def split: sum.splits if_splits)
    then show "\<not> endswith p ''?'' \<and> startswith p ''^'' \<and> endswith p ''$''"
      by (rule py_clean_pattern_cleaned)
  qed
qed

theorem get_pattern_chain_witness:
  "pattern wikidata_only = None
   \<and> get_pattern wikidata_only = Inr (Some ''^P[0-9]+$'')
   \<and> \<not> endswith ''^P[0-9]+$'' ''?''
   \<and> startswith ''^P[0-9]+$'' ''^''
   \<and> endswith ''^P[0-9]+$'' ''$''"
proof -
  have n: "pattern wikidata_only = None"
    by (simp add: wikidata_only_def empty_resource_def)
  have g: "get_pattern wikidata_only = Inr (Some ''^P[0-9]+$'')"
    using get_pattern_chain[of wikidata_only]
    by (simp add: snapshot_def wikidata_only_def empty_resource_def dict_get_def
        clean_pattern_def rstrip_def startswith_def endswith_def)
  from get_pattern_chain[of wikidata_only] n g
  have "\<not> endswith ''^P[0-9]+$'' ''?'' \<and> startswith ''^P[0-9]+$'' ''^''
        \<and> endswith ''^P[0-9]+$'' ''$''"
    by blast
  with n g show ?thesis by simp
qed

text \<open>
  C7 as stated, with every result cleaned, does not hold: a curated pattern is returned
  as it is, here without the anchors.
\<close>

theorem get_pattern_counterexample:
  "get_pattern unanchored = Inr (Some ''[0-9]+'')
   \<and> \<not> startswith ''[0-9]+'' ''^''
   \<and> \<not> endswith ''[0-9]+'' ''$''"
  by (simp add: get_pattern_def unanchored_def empty_resource_def startswith_def endswith_def)

text \<open>
  C8. \<open>is_canonical_identifier\<close> answers unknown (\<open>None\<close>, not false) when no pattern is
  resolvable; with a resolved pattern, compiled by \<^verbatim>\<open>re.compile\<close>, it answers true
  exactly when the identifier matches the whole pattern, and false otherwise.
\<close>

theorem is_canonical_identifier_three_valued:
  "(get_pattern self = Inr None \<longrightarrow> is_canonical_identifier E self identifier = Inr None)
   \<and> (\<forall>p compiled. get_pattern self = Inr (Some p) \<longrightarrow> re_compile E p = Some compiled \<longrightarrow>
          is_canonical_identifier E self identifier = Inr (Some (compiled identifier)))"
  by (simp add: is_canonical_identifier_def get_pattern_re_def)

theorem is_canonical_identifier_three_valued_witness:
  "get_pattern empty_resource = Inr None
   \<and> is_canonical_identifier env0 empty_resource ''1234'' = Inr None
   \<and> get_pattern chebi = Inr (Some ''^CHEBI:[0-9]+$'')
   \<and> is_canonical_identifier env0 chebi ''CHEBI:1234'' = Inr (Some True)
   \<and> is_canonical_identifier env0 chebi ''1234'' = Inr (Some False)"
proof -
  have n: "get_pattern empty_resource = Inr None"
    by (simp add: get_pattern_def get_prefix_key_def get_external_snapshots snapshot_def
        empty_resource_def dict_get_def dict_def)
  have c: "re_compile env0 ''^CHEBI:[0-9]+$'' =
             Some (\<lambda>s. startswith s ''CHEBI:'' \<and> 6 < length s \<and> list_all is_digit (drop 6 s))"
    by (simp add: env0_def)
  show ?thesis
    using n c get_pattern_chebi
      is_canonical_identifier_three_valued[of empty_resource env0 "''1234''"]
      is_canonical_identifier_three_valued[of chebi env0 "''CHEBI:1234''"]
      is_canonical_identifier_three_valued[of chebi env0 "''1234''"]
    by (simp add: startswith_def is_digit_def)
qed

end
